theory Spec2Isabelle
  imports Complex_Main
begin

section \<open>Data model\<close>

text \<open>
  The embedding of \<^verbatim>\<open>tools/embedder.py\<close> (class \<^verbatim>\<open>EmbeddingStore\<close>) and of the
  \<^verbatim>\<open>/ask\<close> route of \<^verbatim>\<open>app.py\<close>.

  Python exceptions are values: every operation that can raise returns \<open>exn + 'a\<close>, with
  \<open>Inl\<close> the raised exception. Vectors of floats are lists of reals: rounding to
  \<^verbatim>\<open>float32\<close> is not modelled.
\<close>

datatype exn_class = ExternalError | OSError | ValueError | AssertionError | IndexError

datatype exn = Raise exn_class string

fun str_exn :: "exn \<Rightarrow> string" where
  "str_exn (Raise c m) = m"

type_synonym vec = "real list"

text \<open>
  \<^verbatim>\<open>LineNumberChunk\<close> is declared in \<^verbatim>\<open>tools/chunker.py\<close>; the fields are the ones
  that \<^verbatim>\<open>embedder.py\<close> and \<^verbatim>\<open>app.py\<close> read.
\<close>

record LineNumberChunk =
  chunk_id :: string
  file_path :: string
  language :: string
  content :: string
  start_line :: int
  end_line :: int

text \<open>
  The embeddings client (\<^verbatim>\<open>GoogleGenerativeAIEmbeddings\<close>) is an external service: its
  two calls are parameters, and each may raise. The value of
  \<^verbatim>\<open>self._get_embeddings_model()\<close> is \<open>exn + embeddings_model\<close>, since constructing
  the client may raise as well.
\<close>

record embeddings_model =
  embed_documents :: "string list \<Rightarrow> exn + vec list"
  embed_query :: "string \<Rightarrow> exn + vec"

subsection \<open>Persisted artifacts\<close>

text \<open>
  The three files of a repository under \<^verbatim>\<open>storage_dir\<close>:
  \<^verbatim>\<open>{repo_id}.faiss\<close>, \<^verbatim>\<open>{repo_id}_chunks.pkl\<close> and \<^verbatim>\<open>{repo_id}_info.pkl\<close>.
  The three name patterns never collide, so the directory is three maps keyed by
  \<^verbatim>\<open>repo_id\<close>. A file either holds what was written to it or is unreadable
  (a write that stopped half-way): loading an unreadable file raises.
\<close>

datatype 'a stored = Good 'a | Unreadable

record faiss_index =
  d :: nat
  xb :: "vec list"

record index_info =
  total_chunks :: nat
  dimension :: nat
  repo_id :: string

record storage =
  faiss_files :: "string \<rightharpoonup> faiss_index stored"
  chunks_files :: "string \<rightharpoonup> LineNumberChunk list stored"
  info_files :: "string \<rightharpoonup> index_info stored"

text \<open>
  What a write does is decided by the environment: it completes, it raises before
  touching the file, or it raises leaving an unreadable file behind.
\<close>

datatype write_outcome = Completes | Fails_untouched | Fails_partial

record io_faults =
  faiss_write :: write_outcome
  chunks_write :: write_outcome
  info_write :: write_outcome

definition write_file ::
  "write_outcome \<Rightarrow> (string \<rightharpoonup> 'a stored) \<Rightarrow> string \<Rightarrow> 'a \<Rightarrow> exn option \<times> (string \<rightharpoonup> 'a stored)" where
  "write_file w files name v =
     (case w of
        Completes \<Rightarrow> (None, files(name \<mapsto> Good v))
      | Fails_untouched \<Rightarrow> (Some (Raise OSError ''write failed''), files)
      | Fails_partial \<Rightarrow> (Some (Raise OSError ''write failed''), files(name \<mapsto> Unreadable)))"

definition read_file :: "(string \<rightharpoonup> 'a stored) \<Rightarrow> string \<Rightarrow> exn + 'a" where
  "read_file files name =
     (case files name of
        None \<Rightarrow> Inl (Raise OSError ''no such file'')
      | Some Unreadable \<Rightarrow> Inl (Raise OSError ''cannot load'')
      | Some (Good v) \<Rightarrow> Inr v)"

section \<open>embed\_chunks\<close>

definition enriched_text :: "LineNumberChunk \<Rightarrow> string" where
  "enriched_text chunk =
     ''File: '' @ file_path chunk @ [CHR 0x0A] @ ''Language: '' @ language chunk
       @ [CHR 0x0A, CHR 0x0A] @ content chunk"

definition batch_size :: nat where
  "batch_size = 100"

text \<open>
  The loop \<^verbatim>\<open>for i in range(0, len(texts_to_embed), batch_size)\<close>: the exception of a
  batch is re-raised, so the loop ends at the first batch that fails.
\<close>

function embed_loop ::
  "(string list \<Rightarrow> exn + vec list) \<Rightarrow> string list \<Rightarrow> nat \<Rightarrow> vec list \<Rightarrow> exn + vec list" where
  "embed_loop f texts i embeddings =
     (if i < length texts then
        (case f (take batch_size (drop i texts)) of
           Inl e \<Rightarrow> Inl e
         | Inr batch_embeddings \<Rightarrow> embed_loop f texts (i + batch_size) (embeddings @ batch_embeddings))
      else Inr embeddings)"
  by pat_completeness auto
termination
  by (relation "measure (\<lambda>(f, texts, i, embeddings). length texts - i)")
     (auto simp: batch_size_def)

declare embed_loop.simps [simp del]

text \<open>
  \<^verbatim>\<open>np.array(embeddings, dtype='float32')\<close>: rows of different lengths raise
  \<^verbatim>\<open>ValueError\<close>. The array is kept as its list of rows; \<open>array_size\<close> is
  \<^verbatim>\<open>.size\<close> and \<open>shape1\<close> is \<^verbatim>\<open>.shape[1]\<close>.
\<close>

definition np_array :: "vec list \<Rightarrow> exn + vec list" where
  "np_array rows =
     (if list_all (\<lambda>r. length r = length (hd rows)) rows then Inr rows
      else Inl (Raise ValueError ''inhomogeneous shape''))"

definition array_size :: "vec list \<Rightarrow> nat" where
  "array_size rows = (case rows of [] \<Rightarrow> 0 | r # rs \<Rightarrow> length rows * length r)"

definition shape1 :: "vec list \<Rightarrow> nat" where
  "shape1 rows = (case rows of [] \<Rightarrow> 0 | r # rs \<Rightarrow> length r)"

definition embed_chunks ::
  "(exn + embeddings_model) \<Rightarrow> LineNumberChunk list \<Rightarrow> exn + vec list" where
  "embed_chunks gm chunks =
     (if chunks = [] then Inr []
      else case gm of
        Inl e \<Rightarrow> Inl e
      | Inr model \<Rightarrow>
          (case embed_loop (embed_documents model) (map enriched_text chunks) 0 [] of
             Inl e \<Rightarrow> Inl e
           | Inr embeddings \<Rightarrow> np_array embeddings))"

section \<open>create\_index and has\_index\<close>

text \<open>
  The body of the \<^verbatim>\<open>try\<close> block after the embeddings were computed: the three writes,
  in the order of the source. A write that raises ends the block; what was written
  before it stays.
\<close>

definition save_artifacts ::
  "io_faults \<Rightarrow> storage \<Rightarrow> string \<Rightarrow> LineNumberChunk list \<Rightarrow> vec list \<Rightarrow> bool \<times> storage" where
  "save_artifacts io s rid chunks embeddings =
     (let dimension = shape1 embeddings;
          index = \<lparr>d = dimension, xb = embeddings\<rparr>;
          (r1, ff) = write_file (faiss_write io) (faiss_files s) rid index;
          s1 = s\<lparr>faiss_files := ff\<rparr>
      in case r1 of
           Some e \<Rightarrow> (False, s1)
         | None \<Rightarrow>
             (let (r2, cf) = write_file (chunks_write io) (chunks_files s1) rid chunks;
                  s2 = s1\<lparr>chunks_files := cf\<rparr>
              in case r2 of
                   Some e \<Rightarrow> (False, s2)
                 | None \<Rightarrow>
                     (let (r3, nf) = write_file (info_write io) (info_files s2) rid
                                       \<lparr>total_chunks = length chunks, dimension = dimension,
                                        repo_id = rid\<rparr>;
                          s3 = s2\<lparr>info_files := nf\<rparr>
                      in case r3 of
                           Some e \<Rightarrow> (False, s3)
                         | None \<Rightarrow> (True, s3))))"

definition create_index ::
  "(exn + embeddings_model) \<Rightarrow> io_faults \<Rightarrow> storage \<Rightarrow> string \<Rightarrow> LineNumberChunk list
     \<Rightarrow> bool \<times> storage" where
  "create_index gm io s rid chunks =
     (if chunks = [] then (False, s)
      else case embed_chunks gm chunks of
        Inl e \<Rightarrow> (False, s)
      | Inr embeddings \<Rightarrow>
          (if array_size embeddings = 0 then (False, s)
           else save_artifacts io s rid chunks embeddings))"

definition has_index :: "storage \<Rightarrow> string \<Rightarrow> bool" where
  "has_index s rid = (faiss_files s rid \<noteq> None \<and> chunks_files s rid \<noteq> None)"

section \<open>search\_similar\<close>

text \<open>
  Python list indexing \<^verbatim>\<open>xs[i]\<close>: a negative index counts from the end, and an index
  out of range on either side raises \<^verbatim>\<open>IndexError\<close>.
\<close>

definition py_getitem :: "'a list \<Rightarrow> int \<Rightarrow> exn + 'a" where
  "py_getitem xs i =
     (if 0 \<le> i then
        (if i < int (length xs) then Inr (xs ! nat i)
         else Inl (Raise IndexError ''list index out of range''))
      else
        (if - int (length xs) \<le> i then Inr (xs ! nat (int (length xs) + i))
         else Inl (Raise IndexError ''list index out of range'')))"

text \<open>
  \<^verbatim>\<open>IndexFlatL2.search\<close> of the FAISS library, for one query vector, as the library
  documents it: the query must have the dimension of the index and \<open>k\<close> must be
  positive (both are assertions of the Python wrapper); the result is \<open>k\<close> pairs of
  squared Euclidean distance and label (the position of the stored vector), nearest
  first; when the index holds fewer than \<open>k\<close> vectors the missing places are filled
  with the label \<open>-1\<close> and the largest \<^verbatim>\<open>float32\<close>. The pairs are what
  \<^verbatim>\<open>zip(distances[0], indices[0])\<close> iterates over.
\<close>

definition l2sqr :: "vec \<Rightarrow> vec \<Rightarrow> real" where
  "l2sqr x y = sum_list (map (\<lambda>(a, b). (a - b) * (a - b)) (zip x y))"

definition FLT_MAX :: real where
  "FLT_MAX = 340282346638528859811704183484516925440"

definition index_search :: "faiss_index \<Rightarrow> vec \<Rightarrow> int \<Rightarrow> exn + (real \<times> int) list" where
  "index_search index x k =
     (if length x = d index then
        (if 0 < k then
           (let scored = zip (map (l2sqr x) (xb index)) (map int [0..<length (xb index)]);
                hits = take (nat k) (sort_key fst scored)
            in Inr (hits @ replicate (nat k - length hits) (FLT_MAX, - 1)))
         else Inl (Raise AssertionError []))
      else Inl (Raise AssertionError []))"

text \<open>
  The loop that collects the results: the only test before \<^verbatim>\<open>chunks[idx]\<close> is
  \<^verbatim>\<open>idx < len(chunks)\<close>.
\<close>

fun collect_results ::
  "LineNumberChunk list \<Rightarrow> (real \<times> int) list \<Rightarrow> (LineNumberChunk \<times> real) list
     \<Rightarrow> exn + (LineNumberChunk \<times> real) list" where
  "collect_results chunks [] results = Inr results"
| "collect_results chunks ((distance, idx) # rest) results =
     (if idx < int (length chunks) then
        (case py_getitem chunks idx of
           Inl e \<Rightarrow> Inl e
         | Inr c \<Rightarrow> collect_results chunks rest (results @ [(c, distance)]))
      else collect_results chunks rest results)"

text \<open>The \<^verbatim>\<open>try\<close> block of \<^verbatim>\<open>search_similar\<close>.\<close>

definition search_similar_try ::
  "(exn + embeddings_model) \<Rightarrow> storage \<Rightarrow> string \<Rightarrow> string \<Rightarrow> int
     \<Rightarrow> exn + (LineNumberChunk \<times> real) list" where
  "search_similar_try gm s rid query k =
     (case read_file (faiss_files s) rid of
        Inl e \<Rightarrow> Inl e
      | Inr index \<Rightarrow>
     (case read_file (chunks_files s) rid of
        Inl e \<Rightarrow> Inl e
      | Inr chunks \<Rightarrow>
     (case gm of
        Inl e \<Rightarrow> Inl e
      | Inr model \<Rightarrow>
     (case embed_query model query of
        Inl e \<Rightarrow> Inl e
      | Inr query_embedding \<Rightarrow>
     (case index_search index query_embedding (min k (int (length chunks))) of
        Inl e \<Rightarrow> Inl e
      | Inr pairs \<Rightarrow> collect_results chunks pairs [])))))"

text \<open>
  \<^verbatim>\<open>search_similar\<close>: without an index the result is the empty list, and every
  exception of the \<^verbatim>\<open>try\<close> block is caught, logged and turned into the empty list.
\<close>

definition search_similar ::
  "(exn + embeddings_model) \<Rightarrow> storage \<Rightarrow> string \<Rightarrow> string \<Rightarrow> int
     \<Rightarrow> (LineNumberChunk \<times> real) list" where
  "search_similar gm s rid query k =
     (if has_index s rid then
        (case search_similar_try gm s rid query k of
           Inl e \<Rightarrow> []
         | Inr results \<Rightarrow> results)
      else [])"

section \<open>search\_by\_selection\<close>

record selection_result =
  selected_chunks :: "LineNumberChunk list"
  context_chunks :: "LineNumberChunk list"

text \<open>
  The filtering loop: a chunk whose id is not among the selected ones is appended, and
  the test against \<^verbatim>\<open>additional_context_k\<close> comes after the append.
\<close>

fun context_loop ::
  "string set \<Rightarrow> int \<Rightarrow> (LineNumberChunk \<times> real) list \<Rightarrow> LineNumberChunk list
     \<Rightarrow> LineNumberChunk list" where
  "context_loop selected_ids k [] ctx = ctx"
| "context_loop selected_ids k ((chunk, score) # rest) ctx =
     (if chunk_id chunk \<notin> selected_ids then
        (if k \<le> int (length (ctx @ [chunk])) then ctx @ [chunk]
         else context_loop selected_ids k rest (ctx @ [chunk]))
      else context_loop selected_ids k rest ctx)"

text \<open>
  \<^verbatim>\<open>ChunkStore.get_chunks_by_lines\<close> lives in \<^verbatim>\<open>tools/chunker.py\<close>: the lookup is a
  parameter, and it may raise. \<^verbatim>\<open>search_by_selection\<close> has no handler of its own, so
  an exception of the lookup is the only one it can raise.
\<close>

definition search_by_selection ::
  "(exn + embeddings_model) \<Rightarrow> (string \<Rightarrow> string \<Rightarrow> int \<Rightarrow> int \<Rightarrow> exn + LineNumberChunk list)
     \<Rightarrow> storage \<Rightarrow> string \<Rightarrow> string \<Rightarrow> int \<Rightarrow> int \<Rightarrow> int \<Rightarrow> exn + selection_result" where
  "search_by_selection gm get_chunks_by_lines s rid path start_l end_l additional_context_k =
     (case get_chunks_by_lines rid path start_l end_l of
        Inl e \<Rightarrow> Inl e
      | Inr selected \<Rightarrow>
          Inr \<lparr>selected_chunks = selected,
               context_chunks =
                 (if selected \<noteq> [] then
                    (if has_index s rid then
                       (let query_text = content (hd selected);
                            similar_results =
                              search_similar gm s rid query_text
                                (additional_context_k + int (length selected));
                            selected_ids = chunk_id ` set selected
                        in context_loop selected_ids additional_context_k similar_results [])
                     else [])
                  else [])\<rparr>)"

section \<open>The /ask route\<close>

text \<open>
  The collaborators of \<^verbatim>\<open>ask_question\<close> that are not in the retrieval core:
  \<^verbatim>\<open>get_repo_id\<close> (from \<^verbatim>\<open>tools/github_loader.py\<close>), filling the template
  \<^verbatim>\<open>QA_PROMPT\<close> with the question and the context, and the call of the language model.
\<close>

record app_env =
  get_repo_id :: "string \<Rightarrow> exn + string"
  qa_prompt_format :: "string \<Rightarrow> string \<Rightarrow> string"
  llm_invoke :: "string \<Rightarrow> exn + string"

text \<open>A response is the pair \<^verbatim>\<open>(jsonify(...), status)\<close>.\<close>

datatype body =
    ErrorBody string
  | AnswerBody (question: string) (answer: string) (chunks_used: nat)

type_synonym response = "body \<times> nat"

text \<open>\<^verbatim>\<open>str.strip()\<close>, on the white space of ASCII.\<close>

definition is_space :: "char \<Rightarrow> bool" where
  "is_space c = (c \<in> set [CHR 0x09, CHR 0x0A, CHR 0x0B, CHR 0x0C, CHR 0x0D,
                            CHR 0x1C, CHR 0x1D, CHR 0x1E, CHR 0x1F, CHR 0x20])"

definition py_strip :: "string \<Rightarrow> string" where
  "py_strip t = rev (dropWhile is_space (rev (dropWhile is_space t)))"

text \<open>\<^verbatim>\<open>str\<close> of an integer, for the line numbers of the context headers.\<close>

fun str_nat :: "nat \<Rightarrow> string" where
  "str_nat n =
     (if n < 10 then [''0123456789'' ! n]
      else str_nat (n div 10) @ [''0123456789'' ! (n mod 10)])"

declare str_nat.simps [simp del]

definition str_int :: "int \<Rightarrow> string" where
  "str_int i = (if i < 0 then CHR ''-'' # str_nat (nat (- i)) else str_nat (nat i))"

definition context_part :: "LineNumberChunk \<Rightarrow> string" where
  "context_part chunk =
     ''['' @ file_path chunk @ '':'' @ str_int (start_line chunk) @ ''-''
       @ str_int (end_line chunk) @ '']'' @ [CHR 0x0A] @ content chunk"

fun join :: "string \<Rightarrow> string list \<Rightarrow> string" where
  "join sep [] = []"
| "join sep [p] = p"
| "join sep (p # q # ps) = p @ sep @ join sep (q # ps)"

definition context_separator :: string where
  "context_separator = [CHR 0x0A, CHR 0x0A] @ ''---'' @ [CHR 0x0A, CHR 0x0A]"

definition not_found_answer :: string where
  "not_found_answer =
     ''I couldn'' @ [CHR 0x27] @ ''t find relevant information in the repository to answer this question.''"

text \<open>The \<^verbatim>\<open>try\<close> block of \<^verbatim>\<open>ask_question\<close>.\<close>

definition ask_question_try ::
  "app_env \<Rightarrow> (exn + embeddings_model) \<Rightarrow> storage \<Rightarrow> string \<Rightarrow> string \<Rightarrow> exn + response" where
  "ask_question_try env gm s repo_url qn =
     (case get_repo_id env repo_url of
        Inl e \<Rightarrow> Inl e
      | Inr rid \<Rightarrow>
          (if has_index s rid then
             (let similar_chunks = search_similar gm s rid qn 5
              in if similar_chunks = [] then
                   Inr (AnswerBody qn not_found_answer 0, 200)
                 else
                   (let context_text =
                          join context_separator (map (\<lambda>(chunk, score). context_part chunk) similar_chunks);
                        prompt = qa_prompt_format env qn context_text
                    in case llm_invoke env prompt of
                         Inl e \<Rightarrow> Inl e
                       | Inr ans \<Rightarrow> Inr (AnswerBody qn ans (length similar_chunks), 200)))
           else Inr (ErrorBody ''Repository not indexed. Please analyze the repository first.'', 400)))"

definition ask_question ::
  "app_env \<Rightarrow> (exn + embeddings_model) \<Rightarrow> storage \<Rightarrow> (string \<rightharpoonup> string) option \<Rightarrow> response" where
  "ask_question env gm s data =
     (case data of
        None \<Rightarrow> (ErrorBody ''Please provide repo_url and question'', 400)
      | Some json \<Rightarrow>
     (case json ''repo_url'' of
        None \<Rightarrow> (ErrorBody ''Please provide repo_url and question'', 400)
      | Some u \<Rightarrow>
     (case json ''question'' of
        None \<Rightarrow> (ErrorBody ''Please provide repo_url and question'', 400)
      | Some q \<Rightarrow>
          (if py_strip u = [] then (ErrorBody ''repo_url and question cannot be empty'', 400)
           else if py_strip q = [] then (ErrorBody ''repo_url and question cannot be empty'', 400)
           else
             (case ask_question_try env gm s (py_strip u) (py_strip q) of
                Inl e \<Rightarrow> (ErrorBody (''Q&A failed: '' @ str_exn e), 500)
              | Inr r \<Rightarrow> r)))))"

section \<open>Example data\<close>

text \<open>
  Three chunks of one file, an embeddings client that maps a text to eight copies of its
  length, a client whose calls all raise, and the storage after indexing the three
  chunks under the repository id \<open>repo\<close>.
\<close>

definition chunk_a :: LineNumberChunk where
  "chunk_a = \<lparr>chunk_id = ''m.py:1:0'', file_path = ''m.py'', language = ''python'',
     content = ''a = 1'', start_line = 1, end_line = 4\<rparr>"

definition chunk_b :: LineNumberChunk where
  "chunk_b = \<lparr>chunk_id = ''m.py:4:1'', file_path = ''m.py'', language = ''python'',
     content = ''bb = 22'', start_line = 4, end_line = 7\<rparr>"

definition chunk_c :: LineNumberChunk where
  "chunk_c = \<lparr>chunk_id = ''m.py:7:2'', file_path = ''m.py'', language = ''python'',
     content = ''ccc = 3333'', start_line = 7, end_line = 10\<rparr>"

definition toy_embed :: "string \<Rightarrow> vec" where
  "toy_embed t = replicate 8 (real (length t))"

definition toy_model :: embeddings_model where
  "toy_model = \<lparr>embed_documents = (\<lambda>texts. Inr (map toy_embed texts)),
                 embed_query = (\<lambda>t. Inr (toy_embed t))\<rparr>"

definition down_model :: embeddings_model where
  "down_model = \<lparr>embed_documents = (\<lambda>texts. Inl (Raise ExternalError ''503'')),
                  embed_query = (\<lambda>t. Inl (Raise ExternalError ''503''))\<rparr>"

definition no_faults :: io_faults where
  "no_faults = \<lparr>faiss_write = Completes, chunks_write = Completes, info_write = Completes\<rparr>"

definition empty_storage :: storage where
  "empty_storage = \<lparr>faiss_files = Map.empty, chunks_files = Map.empty, info_files = Map.empty\<rparr>"

definition built_storage :: storage where
  "built_storage =
     \<lparr>faiss_files = [''repo'' \<mapsto> Good \<lparr>d = 8, xb = [replicate 8 34, replicate 8 36, replicate 8 39]\<rparr>],
      chunks_files = [''repo'' \<mapsto> Good [chunk_a, chunk_b, chunk_c]],
      info_files = [''repo'' \<mapsto> Good \<lparr>total_chunks = 3, dimension = 8, repo_id = ''repo''\<rparr>]\<rparr>"

text \<open>A file system on which the third write of a build (the header) fails.\<close>

definition info_fault :: io_faults where
  "info_fault = \<lparr>faiss_write = Completes, chunks_write = Completes, info_write = Fails_untouched\<rparr>"

text \<open>
  A file system on which the second write of a build (the chunk metadata) fails, the
  storage after indexing two chunks, and the storage that a rebuild with one chunk
  leaves on that file system: one vector, two chunks.
\<close>

definition chunks_fault :: io_faults where
  "chunks_fault = \<lparr>faiss_write = Completes, chunks_write = Fails_untouched, info_write = Completes\<rparr>"

definition two_chunk_storage :: storage where
  "two_chunk_storage =
     \<lparr>faiss_files = [''repo'' \<mapsto> Good \<lparr>d = 8, xb = [replicate 8 34, replicate 8 36]\<rparr>],
      chunks_files = [''repo'' \<mapsto> Good [chunk_a, chunk_b]],
      info_files = [''repo'' \<mapsto> Good \<lparr>total_chunks = 2, dimension = 8, repo_id = ''repo''\<rparr>]\<rparr>"

definition misaligned_storage :: storage where
  "misaligned_storage =
     \<lparr>faiss_files = [''repo'' \<mapsto> Good \<lparr>d = 8, xb = [replicate 8 34]\<rparr>],
      chunks_files = [''repo'' \<mapsto> Good [chunk_a, chunk_b]],
      info_files = [''repo'' \<mapsto> Good \<lparr>total_chunks = 2, dimension = 8, repo_id = ''repo''\<rparr>]\<rparr>"

text \<open>
  An example chunk store for the lookup parameter: the overlap test of the
  specification (\<open>seg.start \<le> query.end\<close> and \<open>seg.end \<ge> query.start\<close>, same file)
  over the three chunks. Then an example environment of the \<^verbatim>\<open>/ask\<close> route and a
  request body.
\<close>

definition toy_lookup :: "string \<Rightarrow> string \<Rightarrow> int \<Rightarrow> int \<Rightarrow> exn + LineNumberChunk list" where
  "toy_lookup rid path start_l end_l =
     Inr (filter (\<lambda>c. file_path c = path \<and> start_line c \<le> end_l \<and> start_l \<le> end_line c)
            [chunk_a, chunk_b, chunk_c])"

definition toy_app :: app_env where
  "toy_app = \<lparr>get_repo_id = (\<lambda>url. Inr ''repo''),
               qa_prompt_format = (\<lambda>qn ctx. qn @ ctx),
               llm_invoke = (\<lambda>prompt. Inr ''It is in m.py.'')\<rparr>"

definition toy_request :: "string \<rightharpoonup> string" where
  "toy_request = [''repo_url'' \<mapsto> '' https://github.com/o/r '', ''question'' \<mapsto> ''where is main?'']"

section \<open>Facts about the example data\<close>

lemmas fixture_defs = chunk_a_def chunk_b_def chunk_c_def toy_embed_def toy_model_def
  down_model_def no_faults_def empty_storage_def built_storage_def

lemma embed_chunks_toy:
  "embed_chunks (Inr toy_model) [chunk_a, chunk_b, chunk_c]
     = Inr [replicate 8 34, replicate 8 36, replicate 8 39]"
  by (simp add: embed_chunks_def embed_loop.simps enriched_text_def batch_size_def np_array_def
        fixture_defs)

lemma create_index_toy:
  "create_index (Inr toy_model) no_faults empty_storage ''repo'' [chunk_a, chunk_b, chunk_c]
     = (True, built_storage)"
  unfolding create_index_def embed_chunks_toy
  by (simp add: array_size_def shape1_def save_artifacts_def write_file_def no_faults_def
        empty_storage_def built_storage_def numeral_3_eq_3)

section \<open>Building the index\<close>

text \<open>
  C9. \<^verbatim>\<open>create_index\<close> with an empty chunk list returns \<^verbatim>\<open>False\<close> and writes none of
  the three artifacts: the storage after the call is the storage before it, whatever the
  embeddings client and the file system would have done.
\<close>

theorem create_index_empty_chunks:
  "create_index gm io s rid [] = (False, s)"
  by (simp add: create_index_def)

text \<open>
  A batch that raises makes the whole loop raise, wherever the batch is: the batches
  before it either raised themselves or let the loop go on to it.
\<close>

lemma embed_loop_batch_failure:
  "i + m * batch_size < length texts \<Longrightarrow>
   f (take batch_size (drop (i + m * batch_size) texts)) = Inl e \<Longrightarrow>
   \<exists>e'. embed_loop f texts i acc = Inl e'"
proof (induction m arbitrary: i acc)
  case 0
  then show ?case by (simp add: embed_loop.simps [of f texts i acc])
next
  case (Suc m)
  have lt: "i < length texts" using Suc.prems(1) by simp
  show ?case
  proof (cases "f (take batch_size (drop i texts))")
    case (Inl e0)
    then show ?thesis using lt by (simp add: embed_loop.simps [of f texts i acc])
  next
    case (Inr be)
    have "\<exists>e'. embed_loop f texts (i + batch_size) (acc @ be) = Inl e'"
      using Suc.IH [of "i + batch_size" "acc @ be"] Suc.prems by (simp add: algebra_simps)
    then show ?thesis using lt Inr by (simp add: embed_loop.simps [of f texts i acc])
  qed
qed

lemma create_index_embed_failure:
  "embed_chunks gm chunks = Inl e \<Longrightarrow> create_index gm io s rid chunks = (False, s)"
  by (simp add: create_index_def)

text \<open>
  C1. If embedding any batch of a build fails (the batch that starts at text
  \<open>m * batch_size\<close> raises), \<^verbatim>\<open>create_index\<close> returns \<^verbatim>\<open>False\<close> and the persisted
  artifacts are exactly what they were before the call; so is \<^verbatim>\<open>has_index\<close>. No
  shorter or misaligned index is written.
\<close>

theorem create_index_batch_failure_aborts:
  assumes "gm = Inr model"
    and "m * batch_size < length chunks"
    and "embed_documents model
           (take batch_size (drop (m * batch_size) (map enriched_text chunks))) = Inl e"
  shows "create_index gm io s rid chunks = (False, s)
         \<and> has_index (snd (create_index gm io s rid chunks)) rid = has_index s rid"
proof -
  have "\<exists>e'. embed_loop (embed_documents model) (map enriched_text chunks) 0 [] = Inl e'"
    using embed_loop_batch_failure
            [of 0 m "map enriched_text chunks" "embed_documents model" e "[]"] assms
    by simp
  then obtain e' where
    "embed_loop (embed_documents model) (map enriched_text chunks) 0 [] = Inl e'"
    by blast
  moreover have "chunks \<noteq> []" using assms(2) by auto
  ultimately have "embed_chunks gm chunks = Inl e'"
    using assms(1) by (simp add: embed_chunks_def)
  then have "create_index gm io s rid chunks = (False, s)"
    by (rule create_index_embed_failure)
  then show ?thesis by simp
qed

text \<open>
  The witness is a rebuild over an existing index while the embedding service is down:
  the previous complete index stays.
\<close>

theorem create_index_batch_failure_aborts_witness:
  "create_index (Inr down_model) no_faults built_storage ''repo'' [chunk_a] = (False, built_storage)
   \<and> has_index built_storage ''repo''"
  using create_index_batch_failure_aborts [of "Inr down_model" down_model 0 "[chunk_a]"
      "Raise ExternalError ''503''" no_faults built_storage "''repo''"]
  by (simp add: down_model_def has_index_def built_storage_def batch_size_def)

section \<open>The existence check\<close>

text \<open>
  A first build whose header write fails returns \<^verbatim>\<open>False\<close> and leaves two of the
  three artifacts behind; \<^verbatim>\<open>has_index\<close> reports this partial set as an index.
\<close>

theorem has_index_partial_set_counterexample:
  "\<not> fst (create_index (Inr toy_model) info_fault empty_storage ''repo'' [chunk_a, chunk_b, chunk_c])
   \<and> has_index (snd (create_index (Inr toy_model) info_fault empty_storage ''repo''
                        [chunk_a, chunk_b, chunk_c])) ''repo''
   \<and> info_files (snd (create_index (Inr toy_model) info_fault empty_storage ''repo''
                        [chunk_a, chunk_b, chunk_c])) ''repo'' = None"
  unfolding create_index_def embed_chunks_toy
  by (simp add: array_size_def shape1_def save_artifacts_def write_file_def info_fault_def
        empty_storage_def has_index_def)

lemma save_artifacts_success:
  assumes "save_artifacts io s rid chunks embeddings = (True, s')"
  shows "faiss_files s' rid = Some (Good \<lparr>d = shape1 embeddings, xb = embeddings\<rparr>)
       \<and> chunks_files s' rid = Some (Good chunks)
       \<and> info_files s' rid =
           Some (Good \<lparr>total_chunks = length chunks, dimension = shape1 embeddings, repo_id = rid\<rparr>)"
  using assms
  by (cases "faiss_write io"; cases "chunks_write io"; cases "info_write io")
     (auto simp: save_artifacts_def write_file_def Let_def)

text \<open>
  C3, as amended. \<^verbatim>\<open>has_index\<close> is true exactly when the FAISS file and the chunk
  metadata file of the repository are both present; it looks neither at the header file
  nor at any count. What the code does guarantee is on the side of the build: after a
  \<^verbatim>\<open>create_index\<close> that returned \<^verbatim>\<open>True\<close>, \<^verbatim>\<open>has_index\<close> holds, all three
  artifacts are present and readable, and the header count is the number of stored chunks.
\<close>

theorem has_index_checks_two_files:
  "has_index s rid = (faiss_files s rid \<noteq> None \<and> chunks_files s rid \<noteq> None)
   \<and> (create_index gm io s rid chunks = (True, s') \<longrightarrow>
        has_index s' rid
        \<and> (\<exists>index. faiss_files s' rid = Some (Good index))
        \<and> chunks_files s' rid = Some (Good chunks)
        \<and> (\<exists>dm. info_files s' rid =
                   Some (Good \<lparr>total_chunks = length chunks, dimension = dm, repo_id = rid\<rparr>)))"
proof -
  have "has_index s' rid
        \<and> (\<exists>index. faiss_files s' rid = Some (Good index))
        \<and> chunks_files s' rid = Some (Good chunks)
        \<and> (\<exists>dm. info_files s' rid =
                   Some (Good \<lparr>total_chunks = length chunks, dimension = dm, repo_id = rid\<rparr>))"
    if ok: "create_index gm io s rid chunks = (True, s')"
  proof -
    from ok obtain embeddings where "save_artifacts io s rid chunks embeddings = (True, s')"
      by (auto simp: create_index_def split: if_splits sum.splits)
    from save_artifacts_success [OF this] show ?thesis
      by (simp add: has_index_def)
  qed
  then show ?thesis by (simp add: has_index_def)
qed

theorem has_index_checks_two_files_witness:
  "has_index built_storage ''repo''
   \<and> chunks_files built_storage ''repo'' = Some (Good [chunk_a, chunk_b, chunk_c])
   \<and> (\<exists>dm. info_files built_storage ''repo'' =
              Some (Good \<lparr>total_chunks = 3, dimension = dm, repo_id = ''repo''\<rparr>))"
  using has_index_checks_two_files [of empty_storage "''repo''" "Inr toy_model" no_faults
      "[chunk_a, chunk_b, chunk_c]" built_storage] create_index_toy
  by (simp add: numeral_3_eq_3)

section \<open>Failures during a similarity query\<close>

text \<open>
  With the index in place and the embedding service down, \<^verbatim>\<open>search_similar\<close> returns
  the empty list: the caller sees a success with zero results.
\<close>

theorem search_similar_swallows_failure_counterexample:
  "has_index built_storage ''repo''
   \<and> embed_query down_model ''where is main?'' = Inl (Raise ExternalError ''503'')
   \<and> search_similar (Inr down_model) built_storage ''repo'' ''where is main?'' 5 = []"
  by (simp add: search_similar_def search_similar_try_def has_index_def read_file_def
        built_storage_def down_model_def)

text \<open>
  C8, as amended. When loading either artifact raises, or the embeddings client cannot be
  built, or embedding the query raises, \<^verbatim>\<open>search_similar\<close> catches the exception (it is
  logged) and returns the empty list.
\<close>

theorem search_similar_failure_gives_empty:
  assumes "has_index s rid"
    and "read_file (faiss_files s) rid = Inl e
         \<or> read_file (chunks_files s) rid = Inl e
         \<or> gm = Inl e
         \<or> (\<exists>model. gm = Inr model \<and> embed_query model query = Inl e)"
  shows "search_similar gm s rid query k = []"
  using assms
  by (auto simp: search_similar_def search_similar_try_def split: sum.splits)

theorem search_similar_failure_gives_empty_witness:
  "has_index built_storage ''repo''
   \<and> search_similar (Inr down_model) built_storage ''repo'' ''where is main?'' 5 = []"
  using search_similar_failure_gives_empty [of built_storage "''repo''"
      "Raise ExternalError ''503''" "Inr down_model" "''where is main?''" 5]
  by (simp add: has_index_def built_storage_def down_model_def)

section \<open>Similarity queries on an aligned index\<close>

text \<open>
  When every label is a position of the chunk list, the loop appends one result per
  pair and raises nothing.
\<close>

lemma collect_results_in_range:
  "list_all (\<lambda>(dv, i). 0 \<le> i \<and> i < int (length chunks)) pairs \<Longrightarrow>
   collect_results chunks pairs acc
     = Inr (acc @ map (\<lambda>(dv, i). (chunks ! nat i, dv)) pairs)"
proof (induction pairs arbitrary: acc)
  case Nil
  then show ?case by simp
next
  case (Cons p pairs)
  obtain dv i where p: "p = (dv, i)" by (cases p)
  with Cons.prems have i: "0 \<le> i" "i < int (length chunks)" by simp_all
  have "list_all (\<lambda>(dv, i). 0 \<le> i \<and> i < int (length chunks)) pairs"
    using Cons.prems by simp
  from Cons.IH [OF this] show ?case
    using p i by (simp add: py_getitem_def)
qed

lemma scored_labels_in_range:
  "p \<in> set (zip ds (map int [0..<n])) \<Longrightarrow> 0 \<le> snd p \<and> snd p < int n"
  by (auto simp: set_zip)

lemma index_search_aligned:
  assumes "length x = d index" and "0 < k" and "nat k \<le> length (xb index)"
  shows "index_search index x k
     = Inr (take (nat k) (sort_key fst (zip (map (l2sqr x) (xb index)) (map int [0..<length (xb index)]))))"
  using assms by (simp add: index_search_def Let_def)


lemma search_similar_aligned:
  assumes files: "faiss_files s rid = Some (Good index)" "chunks_files s rid = Some (Good chunks)"
    and model: "gm = Inr model" "embed_query model query = Inr v"
    and dim: "length v = d index"
    and aligned: "length (xb index) = length chunks"
    and pos: "0 < min k (int (length chunks))"
  shows "search_similar gm s rid query k
     = map (\<lambda>(dv, i). (chunks ! nat i, dv))
         (take (nat (min k (int (length chunks))))
            (sort_key fst (zip (map (l2sqr v) (xb index)) (map int [0..<length (xb index)]))))"
proof -
  let ?k = "min k (int (length chunks))"
  let ?scored = "zip (map (l2sqr v) (xb index)) (map int [0..<length (xb index)])"
  let ?pairs = "take (nat ?k) (sort_key fst ?scored)"
  have le: "nat ?k \<le> length (xb index)" using aligned by simp
  have search: "index_search index v ?k = Inr ?pairs"
    using index_search_aligned [OF dim pos le] .
  have "set ?pairs \<subseteq> set ?scored"
    using set_take_subset [of "nat ?k" "sort_key fst ?scored"] by simp
  then have "list_all (\<lambda>(dv, i). 0 \<le> i \<and> i < int (length chunks)) ?pairs"
    using scored_labels_in_range [of _ "map (l2sqr v) (xb index)" "length (xb index)"] aligned
    by (auto simp: list_all_iff)
  then have "collect_results chunks ?pairs [] = Inr (map (\<lambda>(dv, i). (chunks ! nat i, dv)) ?pairs)"
    using collect_results_in_range [of chunks ?pairs "[]"] by simp
  then show ?thesis
    using files model search
    by (simp add: search_similar_def search_similar_try_def has_index_def read_file_def)
qed

text \<open>
  C7. On an existing index whose artifacts load, with \<open>n\<close> stored chunks aligned with
  \<open>n\<close> stored vectors, and a query whose embedding has the dimension of the index, a
  request for \<open>k\<close> neighbours returns exactly \<open>min k n\<close> results (none when
  \<open>k \<le> 0\<close>), ranked by ascending distance, each a stored chunk: \<open>k\<close> is clamped to
  the stored count without an error.
\<close>

theorem search_similar_returns_min_k_n:
  assumes "faiss_files s rid = Some (Good index)" and "chunks_files s rid = Some (Good chunks)"
    and "gm = Inr model" and "embed_query model query = Inr v"
    and "length v = d index"
    and "length (xb index) = length chunks"
  shows "length (search_similar gm s rid query k) = nat (min k (int (length chunks)))
         \<and> sorted (map snd (search_similar gm s rid query k))
         \<and> set (map fst (search_similar gm s rid query k)) \<subseteq> set chunks"
proof (cases "0 < min k (int (length chunks))")
  case False
  then have "index_search index v (min k (int (length chunks))) = Inl (Raise AssertionError [])"
    using assms(5) by (simp add: index_search_def)
  then have "search_similar gm s rid query k = []"
    using assms by (simp add: search_similar_def search_similar_try_def read_file_def)
  moreover have "nat (min k (int (length chunks))) = 0" using False by linarith
  ultimately show ?thesis by simp
next
  case True
  let ?scored = "zip (map (l2sqr v) (xb index)) (map int [0..<length (xb index)])"
  let ?pairs = "take (nat (min k (int (length chunks)))) (sort_key fst ?scored)"
  have eq: "search_similar gm s rid query k = map (\<lambda>(dv, i). (chunks ! nat i, dv)) ?pairs"
    using search_similar_aligned [OF assms True] .
  have len: "length ?pairs = nat (min k (int (length chunks)))"
    using assms(6) by simp
  have snd_eq: "map snd (map (\<lambda>(dv, i). (chunks ! nat i, dv)) ?pairs) = map fst ?pairs"
    by (simp add: case_prod_unfold)
  have "sorted (map fst (sort_key fst ?scored))" by simp
  then have "sorted (take (nat (min k (int (length chunks)))) (map fst (sort_key fst ?scored)))"
    by (rule sorted_wrt_take)
  then have srt: "sorted (map fst ?pairs)" by (simp add: take_map)
  have "set ?pairs \<subseteq> set ?scored"
    using set_take_subset [of _ "sort_key fst ?scored"] by simp
  then have "\<And>p. p \<in> set ?pairs \<Longrightarrow> nat (snd p) < length chunks"
    using scored_labels_in_range [of _ "map (l2sqr v) (xb index)" "length (xb index)"] assms(6)
    by fastforce
  then have sub: "set (map fst (map (\<lambda>(dv, i). (chunks ! nat i, dv)) ?pairs)) \<subseteq> set chunks"
    by (auto simp: case_prod_unfold)
  have c1: "length (search_similar gm s rid query k) = nat (min k (int (length chunks)))"
    by (simp only: eq length_map len)
  have c2: "sorted (map snd (search_similar gm s rid query k))"
    by (simp only: eq snd_eq srt)
  have c3: "set (map fst (search_similar gm s rid query k)) \<subseteq> set chunks"
    by (simp only: eq sub)
  show ?thesis using c1 c2 c3 by blast
qed

text \<open>
  The scenario of the specification: three segments, three vectors of dimension 8,
  \<open>k = 10\<close>, exactly three ranked results.
\<close>

theorem search_similar_returns_min_k_n_witness:
  "length (search_similar (Inr toy_model) built_storage ''repo'' ''bb = 22'' 10) = 3
   \<and> sorted (map snd (search_similar (Inr toy_model) built_storage ''repo'' ''bb = 22'' 10))"
  using search_similar_returns_min_k_n [of built_storage "''repo''"
      "\<lparr>d = 8, xb = [replicate 8 34, replicate 8 36, replicate 8 39]\<rparr>"
      "[chunk_a, chunk_b, chunk_c]" "Inr toy_model" toy_model "''bb = 22''" "toy_embed ''bb = 22''" 10]
  by (simp add: built_storage_def toy_model_def toy_embed_def)

section \<open>More facts about the example data\<close>

lemma embed_chunks_two:
  "embed_chunks (Inr toy_model) [chunk_a, chunk_b] = Inr [replicate 8 34, replicate 8 36]"
  by (simp add: embed_chunks_def embed_loop.simps enriched_text_def batch_size_def np_array_def
        fixture_defs)

lemma embed_chunks_one:
  "embed_chunks (Inr toy_model) [chunk_a] = Inr [replicate 8 34]"
  by (simp add: embed_chunks_def embed_loop.simps enriched_text_def batch_size_def np_array_def
        fixture_defs)

lemma two_chunk_storage_built:
  "create_index (Inr toy_model) no_faults empty_storage ''repo'' [chunk_a, chunk_b]
     = (True, two_chunk_storage)"
  unfolding create_index_def embed_chunks_two
  by (simp add: array_size_def shape1_def save_artifacts_def write_file_def no_faults_def
        empty_storage_def two_chunk_storage_def numeral_2_eq_2)

lemma misaligned_storage_reached:
  "create_index (Inr toy_model) chunks_fault two_chunk_storage ''repo'' [chunk_a]
     = (False, misaligned_storage)"
  unfolding create_index_def embed_chunks_one
  by (simp add: array_size_def shape1_def save_artifacts_def write_file_def chunks_fault_def
        two_chunk_storage_def misaligned_storage_def)

lemma toy_query_vec: "toy_embed ''a = 1'' = replicate 8 5"
  by (simp add: toy_embed_def)

lemma index_search_padded:
  "index_search \<lparr>d = 8, xb = [replicate 8 34]\<rparr> (replicate 8 5) 2 = Inr [(6728, 0), (FLT_MAX, - 1)]"
  by (simp add: index_search_def l2sqr_def sum_list_replicate)

lemma toy_lookup_5_6: "toy_lookup ''repo'' ''m.py'' 5 6 = Inr [chunk_b]"
  by (simp add: toy_lookup_def chunk_a_def chunk_b_def chunk_c_def)

lemma search_similar_toy_1:
  "search_similar (Inr toy_model) built_storage ''repo'' ''bb = 22'' 1 = [(chunk_a, 5832)]"
  by (simp add: search_similar_def search_similar_try_def has_index_def read_file_def
        built_storage_def toy_model_def toy_embed_def index_search_def l2sqr_def
        sum_list_replicate py_getitem_def)

lemma search_similar_toy_4:
  "search_similar (Inr toy_model) built_storage ''repo'' ''bb = 22'' 4
     = [(chunk_a, 5832), (chunk_b, 6728), (chunk_c, 8192)]"
  by (simp add: search_similar_def search_similar_try_def has_index_def read_file_def
        built_storage_def toy_model_def toy_embed_def index_search_def l2sqr_def
        sum_list_replicate py_getitem_def numeral_3_eq_3)

lemma empty_storage_has_no_index: "\<not> has_index empty_storage ''repo''"
  by (simp add: has_index_def empty_storage_def)

lemma toy_request_fields:
  "toy_request ''repo_url'' = Some '' https://github.com/o/r ''"
  "toy_request ''question'' = Some ''where is main?''"
  "py_strip '' https://github.com/o/r '' = ''https://github.com/o/r''"
  "py_strip ''where is main?'' = ''where is main?''"
  by (simp_all add: toy_request_def py_strip_def is_space_def)

lemma has_index_built: "has_index built_storage ''repo''"
  by (simp add: has_index_def built_storage_def)

lemma chunk_ids:
  "chunk_id chunk_a = ''m.py:1:0''" "chunk_id chunk_b = ''m.py:4:1''"
  "chunk_id chunk_c = ''m.py:7:2''" "content chunk_b = ''bb = 22''"
  by (simp_all add: chunk_a_def chunk_b_def chunk_c_def)

section \<open>Labels outside the chunk list\<close>

text \<open>
  C10, at a failing input. The index holds one vector and the chunk list two chunks (the
  state \<open>misaligned_storage\<close>, which \<open>misaligned_storage_reached\<close> shows a failed rebuild
  leaves behind). A query for two neighbours makes the search fill the second place with
  the label \<open>-1\<close>. The test \<^verbatim>\<open>idx < len(chunks)\<close> lets \<open>-1\<close> through, and
  \<^verbatim>\<open>chunks[-1]\<close> is the last chunk: the result pairs \<open>chunk_b\<close>, which no stored vector
  stands for, with the filler distance. A label outside the chunk list is dereferenced,
  not skipped.
\<close>

theorem search_similar_negative_label:
  "index_search \<lparr>d = 8, xb = [replicate 8 34]\<rparr> (toy_embed ''a = 1'') 2
     = Inr [(6728, 0), (FLT_MAX, - 1)]
   \<and> collect_results [chunk_a, chunk_b] [(6728, 0), (FLT_MAX, - 1)] []
     = Inr [(chunk_a, 6728), (chunk_b, FLT_MAX)]
   \<and> search_similar (Inr toy_model) misaligned_storage ''repo'' ''a = 1'' 2
     = [(chunk_a, 6728), (chunk_b, FLT_MAX)]"
proof -
  have a: "index_search \<lparr>d = 8, xb = [replicate 8 34]\<rparr> (toy_embed ''a = 1'') 2
     = Inr [(6728, 0), (FLT_MAX, - 1)]"
    by (simp only: toy_query_vec index_search_padded)
  have b: "collect_results [chunk_a, chunk_b] [(6728, 0), (FLT_MAX, - 1)] []
     = Inr [(chunk_a, 6728), (chunk_b, FLT_MAX)]"
    by (simp add: py_getitem_def)
  have c: "search_similar (Inr toy_model) misaligned_storage ''repo'' ''a = 1'' 2
     = [(chunk_a, 6728), (chunk_b, FLT_MAX)]"
    using a b
    by (simp add: search_similar_def search_similar_try_def has_index_def read_file_def
          misaligned_storage_def toy_model_def)
  show ?thesis using a b c by blast
qed

section \<open>Selection-based retrieval\<close>

text \<open>
  Every chunk the filtering loop returns was either in the accumulator already or has an
  id outside the selected ids.
\<close>

lemma context_loop_ids:
  "set (context_loop ids k xs ctx) \<subseteq> set ctx \<union> {c. chunk_id c \<notin> ids}"
proof (induction xs arbitrary: ctx)
  case Nil
  then show ?case by simp
next
  case (Cons x xs)
  obtain chunk score where x: "x = (chunk, score)" by (cases x)
  show ?case
  proof (cases "chunk_id chunk \<in> ids")
    case True
    then show ?thesis using Cons.IH [of ctx] x by simp
  next
    case False
    then show ?thesis using Cons.IH [of "ctx @ [chunk]"] x by auto
  qed
qed

text \<open>
  C5. Whenever a selection-based retrieval returns and found at least one exact
  overlapping chunk, no chunk of the context list has the \<^verbatim>\<open>chunk_id\<close> of a chunk of
  the selected list.
\<close>

theorem search_by_selection_disjoint:
  assumes "search_by_selection gm get_chunks_by_lines s rid path start_l end_l k = Inr r"
    and "selected_chunks r \<noteq> []"
  shows "\<forall>c \<in> set (context_chunks r). \<forall>e \<in> set (selected_chunks r). chunk_id c \<noteq> chunk_id e"
proof -
  from assms(1) obtain selected where
    sel: "get_chunks_by_lines rid path start_l end_l = Inr selected"
    by (auto simp: search_by_selection_def split: sum.splits)
  have r: "selected_chunks r = selected"
    using assms(1) sel by (auto simp: search_by_selection_def)
  have cc: "context_chunks r =
     (if selected \<noteq> [] then
        (if has_index s rid then
           context_loop (chunk_id ` set selected) k
             (search_similar gm s rid (content (hd selected)) (k + int (length selected))) []
         else [])
      else [])"
    using assms(1) sel by (auto simp: search_by_selection_def Let_def)
  have loop: "\<And>xs. set (context_loop (chunk_id ` set selected) k xs [])
                \<subseteq> {c. chunk_id c \<notin> chunk_id ` set selected}"
    using context_loop_ids [of "chunk_id ` set selected" k _ "[]"] by simp
  have "set (context_chunks r) \<subseteq> {c. chunk_id c \<notin> chunk_id ` set selected}"
    by (cases "selected = []"; cases "has_index s rid") (simp_all add: cc loop)
  then show ?thesis unfolding r by blast
qed

text \<open>
  The witness: lines 5 to 6 select \<open>chunk_b\<close>; the index returns all three chunks and
  the two others are the context.
\<close>

theorem search_by_selection_disjoint_witness:
  "search_by_selection (Inr toy_model) toy_lookup built_storage ''repo'' ''m.py'' 5 6 3
     = Inr \<lparr>selected_chunks = [chunk_b], context_chunks = [chunk_a, chunk_c]\<rparr>
   \<and> chunk_id chunk_a \<noteq> chunk_id chunk_b \<and> chunk_id chunk_c \<noteq> chunk_id chunk_b"
proof -
  have ev: "search_by_selection (Inr toy_model) toy_lookup built_storage ''repo'' ''m.py'' 5 6 3
     = Inr \<lparr>selected_chunks = [chunk_b], context_chunks = [chunk_a, chunk_c]\<rparr>"
    unfolding search_by_selection_def toy_lookup_5_6
    by (simp add: has_index_built chunk_ids search_similar_toy_4)
  from search_by_selection_disjoint [OF ev] show ?thesis using ev by simp
qed

text \<open>
  C4. If the lookup of the overlapping chunks returns the empty list, or the repository
  has no vector index, \<^verbatim>\<open>search_by_selection\<close> returns normally, with the selected
  chunks as they were found and an empty context list.
\<close>

theorem search_by_selection_no_related:
  assumes "get_chunks_by_lines rid path start_l end_l = Inr selected"
    and "selected = [] \<or> \<not> has_index s rid"
  shows "search_by_selection gm get_chunks_by_lines s rid path start_l end_l k
     = Inr \<lparr>selected_chunks = selected, context_chunks = []\<rparr>"
  using assms by (auto simp: search_by_selection_def)

text \<open>The witness: a repository whose chunks are stored but which was never indexed.\<close>

theorem search_by_selection_no_related_witness:
  "search_by_selection (Inr toy_model) toy_lookup empty_storage ''repo'' ''m.py'' 5 6 3
     = Inr \<lparr>selected_chunks = [chunk_b], context_chunks = []\<rparr>"
  using search_by_selection_no_related [of toy_lookup "''repo''" "''m.py''" 5 6 "[chunk_b]"
      empty_storage "Inr toy_model" 3] toy_lookup_5_6 empty_storage_has_no_index
  by simp

text \<open>
  While fewer than \<open>k\<close> chunks were collected, the loop returns the accumulator followed
  by the first surviving chunks up to \<open>k\<close> in all. So for \<open>k \<ge> 1\<close> the context list is
  the first \<open>k\<close> neighbours that survive the filter, in the order of the search.
\<close>

lemma context_loop_take:
  "int (length ctx) < k \<Longrightarrow>
   context_loop ids k xs ctx
     = ctx @ take (nat k - length ctx) (filter (\<lambda>c. chunk_id c \<notin> ids) (map fst xs))"
proof (induction xs arbitrary: ctx)
  case Nil
  then show ?case by simp
next
  case (Cons x xs)
  obtain chunk score where x: "x = (chunk, score)" by (cases x)
  show ?case
  proof (cases "chunk_id chunk \<in> ids")
    case True
    then show ?thesis using Cons.IH [OF Cons.prems] x by simp
  next
    case False
    show ?thesis
    proof (cases "k \<le> int (length ctx) + 1")
      case True
      with Cons.prems have "nat k - length ctx = 1" by linarith
      then show ?thesis using False True x by simp
    next
      case stay: False
      then have "int (length (ctx @ [chunk])) < k" by simp
      from Cons.IH [OF this] have
        "context_loop ids k xs (ctx @ [chunk])
           = ctx @ chunk # take (nat k - Suc (length ctx))
                             (filter (\<lambda>c. chunk_id c \<notin> ids) (map fst xs))"
        by simp
      moreover have "nat k - length ctx = Suc (nat k - Suc (length ctx))"
        using stay by linarith
      ultimately show ?thesis using False stay x by simp
    qed
  qed
qed

lemma search_by_selection_positive_k:
  assumes "get_chunks_by_lines rid path start_l end_l = Inr selected"
    and "selected \<noteq> []" and "has_index s rid" and "0 < k"
  shows "search_by_selection gm get_chunks_by_lines s rid path start_l end_l k
     = Inr \<lparr>selected_chunks = selected,
            context_chunks =
              take (nat k)
                (filter (\<lambda>c. chunk_id c \<notin> chunk_id ` set selected)
                   (map fst (search_similar gm s rid (content (hd selected))
                               (k + int (length selected)))))\<rparr>"
  using assms context_loop_take [of "[]" k "chunk_id ` set selected"]
  by (simp add: search_by_selection_def)

text \<open>
  C6, at a failing input. With \<^verbatim>\<open>additional_context_k = 0\<close> the bound allows no
  context chunk. The loop appends before it compares the length with
  \<^verbatim>\<open>additional_context_k\<close>, so the first surviving neighbour is returned: one context
  chunk where at most zero were asked for.
\<close>

theorem search_by_selection_zero_k:
  "search_by_selection (Inr toy_model) toy_lookup built_storage ''repo'' ''m.py'' 5 6 0
     = Inr \<lparr>selected_chunks = [chunk_b], context_chunks = [chunk_a]\<rparr>"
  unfolding search_by_selection_def toy_lookup_5_6
  by (simp add: has_index_built chunk_ids search_similar_toy_1)

section \<open>Free-text retrieval without an index\<close>

text \<open>
  Without an index \<^verbatim>\<open>search_similar\<close> returns the empty list: a normal return, with
  no error to tell it from a search that found nothing.
\<close>

theorem search_similar_no_index_counterexample:
  "\<not> has_index empty_storage ''repo''
   \<and> search_similar (Inr toy_model) empty_storage ''repo'' ''where is main?'' 5 = []"
  by (simp add: search_similar_def has_index_def empty_storage_def)

text \<open>
  C2, as amended. For a repository without a vector index \<^verbatim>\<open>search_similar\<close> returns
  the empty list, and the \<^verbatim>\<open>/ask\<close> route, which tests \<^verbatim>\<open>has_index\<close> before it
  searches, answers a well-formed request with status 400 and the error
  \<open>Repository not indexed\<close>.
\<close>

theorem no_index_empty_list_and_ask_error:
  assumes "\<not> has_index s rid"
    and "json ''repo_url'' = Some u" and "json ''question'' = Some qn"
    and "py_strip u \<noteq> []" and "py_strip qn \<noteq> []"
    and "get_repo_id env (py_strip u) = Inr rid"
  shows "search_similar gm s rid query k = []
         \<and> ask_question env gm s (Some json)
             = (ErrorBody ''Repository not indexed. Please analyze the repository first.'', 400)"
  using assms by (simp add: search_similar_def ask_question_def ask_question_try_def)

theorem no_index_empty_list_and_ask_error_witness:
  "search_similar (Inr toy_model) empty_storage ''repo'' ''where is main?'' 5 = []
   \<and> ask_question toy_app (Inr toy_model) empty_storage (Some toy_request)
       = (ErrorBody ''Repository not indexed. Please analyze the repository first.'', 400)"
  using no_index_empty_list_and_ask_error [of empty_storage "''repo''" toy_request
      "'' https://github.com/o/r ''" "''where is main?''" toy_app "Inr toy_model"
      "''where is main?''" 5] empty_storage_has_no_index toy_request_fields
  by (simp add: toy_app_def)

text \<open>
  The response of \<^verbatim>\<open>/ask\<close> to an empty search result on an indexed repository is a
  different one: status 200 with zero chunks used.
\<close>

lemma ask_question_empty_result:
  assumes "has_index s rid"
    and "json ''repo_url'' = Some u" and "json ''question'' = Some qn"
    and "py_strip u \<noteq> []" and "py_strip qn \<noteq> []"
    and "get_repo_id env (py_strip u) = Inr rid"
    and "search_similar gm s rid (py_strip qn) 5 = []"
  shows "ask_question env gm s (Some json) = (AnswerBody (py_strip qn) not_found_answer 0, 200)"
  using assms by (simp add: ask_question_def ask_question_try_def)

end
